theory Spec2Isabelle
  imports Complex_Main
begin

section \<open>The declaration of \<open>ImageEventEmitter\<close>\<close>

text \<open>
  The source is one header, \<^verbatim>\<open>ABI45_0_0ImageEventEmitter.h\<close>:
  \<^verbatim>\<open>
  class ImageEventEmitter : public ViewEventEmitter {
   public:
    using ViewEventEmitter::ViewEventEmitter;

    void onLoadStart() const;
    void onLoad() const;
    void onLoadEnd() const;
    void onProgress(double) const;
    void onError() const;
    void onPartialLoad() const;
  };
  \<close>
  It declares a class and gives no member function a body. The class is therefore
  modelled as the data the header states: its base clause and its member declarations,
  in the order of the header. The types are the two the header uses.
\<close>

datatype cxx_type = TVoid | TDouble

datatype access = Public | Protected | Private

record method_decl =
  m_name :: string
  m_params :: "cxx_type list"
  m_ret :: cxx_type
  m_const :: bool

text \<open>
  A member declaration is a member function, a data member, or a using-declaration that
  names the constructors of a base (\<^verbatim>\<open>using B::B;\<close>).
\<close>

datatype member =
    Method method_decl
  | DataMember string cxx_type
  | UsingCtors string

record class_decl =
  c_name :: string
  c_bases :: "(access \<times> string) list"
  c_members :: "(access \<times> member) list"

definition ImageEventEmitter :: class_decl where
  "ImageEventEmitter =
     \<lparr> c_name = ''ImageEventEmitter'',
       c_bases = [(Public, ''ViewEventEmitter'')],
       c_members =
         [ (Public, UsingCtors ''ViewEventEmitter''),
           (Public, Method \<lparr> m_name = ''onLoadStart'', m_params = [], m_ret = TVoid, m_const = True \<rparr>),
           (Public, Method \<lparr> m_name = ''onLoad'', m_params = [], m_ret = TVoid, m_const = True \<rparr>),
           (Public, Method \<lparr> m_name = ''onLoadEnd'', m_params = [], m_ret = TVoid, m_const = True \<rparr>),
           (Public, Method \<lparr> m_name = ''onProgress'', m_params = [TDouble], m_ret = TVoid, m_const = True \<rparr>),
           (Public, Method \<lparr> m_name = ''onError'', m_params = [], m_ret = TVoid, m_const = True \<rparr>),
           (Public, Method \<lparr> m_name = ''onPartialLoad'', m_params = [], m_ret = TVoid, m_const = True \<rparr>) ] \<rparr>"

subsection \<open>Reading a class declaration\<close>

fun methods_in :: "(access \<times> member) list \<Rightarrow> method_decl list" where
  "methods_in [] = []"
| "methods_in ((a, Method m) # ms) = m # methods_in ms"
| "methods_in ((a, DataMember n t) # ms) = methods_in ms"
| "methods_in ((a, UsingCtors b) # ms) = methods_in ms"

fun data_members_in :: "(access \<times> member) list \<Rightarrow> (string \<times> cxx_type) list" where
  "data_members_in [] = []"
| "data_members_in ((a, Method m) # ms) = data_members_in ms"
| "data_members_in ((a, DataMember n t) # ms) = (n, t) # data_members_in ms"
| "data_members_in ((a, UsingCtors b) # ms) = data_members_in ms"

fun ctors_in :: "(access \<times> member) list \<Rightarrow> string list" where
  "ctors_in [] = []"
| "ctors_in ((a, Method m) # ms) = ctors_in ms"
| "ctors_in ((a, DataMember n t) # ms) = ctors_in ms"
| "ctors_in ((a, UsingCtors b) # ms) = b # ctors_in ms"

definition own_methods :: "class_decl \<Rightarrow> method_decl list" where
  "own_methods c = methods_in (c_members c)"

definition public_methods :: "class_decl \<Rightarrow> method_decl list" where
  "public_methods c = methods_in (filter (\<lambda>am. fst am = Public) (c_members c))"

definition data_members :: "class_decl \<Rightarrow> (string \<times> cxx_type) list" where
  "data_members c = data_members_in (c_members c)"

definition inherited_ctors :: "class_decl \<Rightarrow> string list" where
  "inherited_ctors c = ctors_in (c_members c)"

text \<open>
  The data an object of a class holds: the data of its base subobject, then the data
  members the class declares itself. The header of the base is not part of the
  sources, so the base's data is a parameter.
\<close>

definition object_members ::
  "(string \<times> cxx_type) list \<Rightarrow> class_decl \<Rightarrow> (string \<times> cxx_type) list" where
  "object_members base_members c = base_members @ data_members c"

definition find_method :: "class_decl \<Rightarrow> string \<Rightarrow> method_decl option" where
  "find_method c n = find (\<lambda>m. m_name m = n) (own_methods c)"

text \<open>
  The member functions a class declares, each with the access it is declared under, and
  the declaration of a name among them. A name stands for all the member functions a
  class declares under it; the first declaration is taken.
\<close>

fun methods_with_access :: "(access \<times> member) list \<Rightarrow> (access \<times> method_decl) list" where
  "methods_with_access [] = []"
| "methods_with_access ((a, Method m) # ms) = (a, m) # methods_with_access ms"
| "methods_with_access ((a, DataMember n t) # ms) = methods_with_access ms"
| "methods_with_access ((a, UsingCtors b) # ms) = methods_with_access ms"

definition find_declared :: "class_decl \<Rightarrow> string \<Rightarrow> (access \<times> method_decl) option" where
  "find_declared c n = find (\<lambda>am. m_name (snd am) = n) (methods_with_access (c_members c))"

text \<open>
  A class together with the classes above it: its declaration and, for the bases of its
  base clause in their order, the base's own hierarchy. The headers of the classes above
  \<^verbatim>\<open>ImageEventEmitter\<close> are not part of the sources, so the hierarchy above it is a
  parameter of what follows.
\<close>

datatype hierarchy = Hierarchy (root: class_decl) (above: "hierarchy list")

text \<open>
  The access a member of a base has in a class derived from it, by the access of the
  derivation: a private member of the base is inaccessible in the derived class
  (\<open>None\<close>), and so is a member that was inaccessible in the base; through a public
  base the other members keep their access, through a protected base they are protected,
  through a private base private.
\<close>

fun through :: "access \<Rightarrow> access option \<Rightarrow> access option" where
  "through i None = None"
| "through i (Some Private) = None"
| "through Public (Some a) = Some a"
| "through Protected (Some a) = Some Protected"
| "through Private (Some a) = Some Private"

datatype origin = Declared_here | Inherited

fun inherit ::
  "access \<Rightarrow> origin \<times> access option \<times> method_decl \<Rightarrow> origin \<times> access option \<times> method_decl" where
  "inherit i (org, acc, m) = (Inherited, through i acc, m)"

fun sole :: "'a list \<Rightarrow> 'a option" where
  "sole [x] = Some x"
| "sole xs = None"

text \<open>
  What one entry of the base clause contributes to a lookup: the result of the lookup in
  the hierarchy given for that base, as an inherited member. A hierarchy whose class is
  not the one the base clause names contributes nothing.
\<close>

fun from_base ::
  "(access \<times> string) \<times> string \<times> (origin \<times> access option \<times> method_decl) option \<Rightarrow>
   (origin \<times> access option \<times> method_decl) option" where
  "from_base ((i, b), name, r) = (if b = name then map_option (inherit i) r else None)"

text \<open>
  Member name lookup in the scope of a class. A declaration in the class itself is found
  first and hides every declaration of that name in the classes above it. A name the
  class does not declare is looked up in each of its bases, and so on upwards through
  every base class; found there, it is an inherited member. Lookup does not look at
  access: the result carries the access the member has in the class where the lookup
  started. A name found through more than one base is ambiguous, and the lookup gives
  \<open>None\<close> as for a name found nowhere (virtual base classes, which can make such a
  name unambiguous, are outside this model).
\<close>

fun lookup_method ::
  "hierarchy \<Rightarrow> string \<Rightarrow> (origin \<times> access option \<times> method_decl) option" where
  "lookup_method (Hierarchy c hs) n =
     (case find_declared c n of
        Some (a, m) \<Rightarrow> Some (Declared_here, Some a, m)
      | None \<Rightarrow>
          sole (List.map_filter from_base
                  (zip (c_bases c)
                     (zip (map (\<lambda>h. c_name (root h)) hs)
                          (map (\<lambda>h. lookup_method h n) hs)))))"

subsection \<open>Arguments and calls\<close>

text \<open>
  A \<^verbatim>\<open>double\<close> is a finite value, an infinity or a NaN. The finite values are
  modelled by \<open>real\<close>, which contains every finite \<^verbatim>\<open>double\<close>.
\<close>

datatype double = Finite real | PosInf | NegInf | NaN

datatype cxx_value = VDouble double

fun has_type :: "cxx_value \<Rightarrow> cxx_type \<Rightarrow> bool" where
  "has_type (VDouble d) TDouble = True"
| "has_type (VDouble d) TVoid = False"

text \<open>A call is well-formed when its arguments match the declared parameters one by one.\<close>

definition accepts :: "method_decl \<Rightarrow> cxx_value list \<Rightarrow> bool" where
  "accepts m args = list_all2 has_type args (m_params m)"

text \<open>
  The header gives no bodies, so a body is a parameter. A body reads the object it is
  called on and its arguments, and returns the object and the rest of the program state
  \<open>'w\<close> as it leaves them. The body of a member function declared \<^verbatim>\<open>const\<close> has
  the same type: the qualifier does not keep a body from changing the object, through
  \<^verbatim>\<open>mutable\<close> members or a \<^verbatim>\<open>const_cast\<close>. A call is defined when its arguments
  fit the declared parameters; \<open>None\<close> stands for a call the compiler rejects.
\<close>

type_synonym ('e, 'w) body = "'e \<Rightarrow> cxx_value list \<Rightarrow> 'w \<Rightarrow> 'e \<times> 'w"

definition call ::
  "method_decl \<Rightarrow> ('e, 'w) body \<Rightarrow> cxx_value list \<Rightarrow> 'e \<times> 'w \<Rightarrow> ('e \<times> 'w) option" where
  "call m f args ew = (if accepts m args then Some (f (fst ew) args (snd ew)) else None)"

section \<open>Delivering events\<close>

text \<open>
  Modelled from the spec: the events the emitter delivers. The definitions of the six
  member functions (\<^verbatim>\<open>ImageEventEmitter.cpp\<close>) are not part of the sources; the
  specification says the emitter notifies its listeners "that a named event occurred,
  optionally carrying a payload (a progress fraction, for \<^verbatim>\<open>onProgress\<close>)". There is
  one event per member function, named after it.
\<close>

datatype image_event = LoadStart | Load | LoadEnd | Progress double | Error | PartialLoad

text \<open>
  Modelled from the spec: the body of \<^verbatim>\<open>onLoadStart\<close>, which the header only
  declares. Each operation "is expected to have the side effect of delivering an event
  to a downstream consumer", and the emitter is "a stateless dispatcher". The downstream
  consumer is the list of the events delivered so far, oldest first; the object the
  member function is called on is \<open>this\<close>, which the body does not use.
\<close>

definition onLoadStart :: "'e \<Rightarrow> image_event list \<Rightarrow> image_event list" where
  "onLoadStart this sink = sink @ [LoadStart]"

text \<open>Modelled from the spec: the body of \<^verbatim>\<open>onLoad\<close>, as for \<open>onLoadStart\<close>.\<close>

definition onLoad :: "'e \<Rightarrow> image_event list \<Rightarrow> image_event list" where
  "onLoad this sink = sink @ [Load]"

text \<open>Modelled from the spec: the body of \<^verbatim>\<open>onLoadEnd\<close>, as for \<open>onLoadStart\<close>.\<close>

definition onLoadEnd :: "'e \<Rightarrow> image_event list \<Rightarrow> image_event list" where
  "onLoadEnd this sink = sink @ [LoadEnd]"

text \<open>
  Modelled from the spec: the body of \<^verbatim>\<open>onProgress\<close>; the event carries the
  argument as its payload. The specification names no validation of the value.
\<close>

definition onProgress :: "'e \<Rightarrow> double \<Rightarrow> image_event list \<Rightarrow> image_event list" where
  "onProgress this p sink = sink @ [Progress p]"

text \<open>Modelled from the spec: the body of \<^verbatim>\<open>onError\<close>, as for \<open>onLoadStart\<close>.\<close>

definition onError :: "'e \<Rightarrow> image_event list \<Rightarrow> image_event list" where
  "onError this sink = sink @ [Error]"

text \<open>Modelled from the spec: the body of \<^verbatim>\<open>onPartialLoad\<close>, as for \<open>onLoadStart\<close>.\<close>

definition onPartialLoad :: "'e \<Rightarrow> image_event list \<Rightarrow> image_event list" where
  "onPartialLoad this sink = sink @ [PartialLoad]"

text \<open>
  A call of one of the six declared member functions, with its argument, and a sequence
  of such calls made one after the other on the same emitter.
\<close>

datatype invocation = OnLoadStart | OnLoad | OnLoadEnd | OnProgress double | OnError | OnPartialLoad

fun method_name :: "invocation \<Rightarrow> string" where
  "method_name OnLoadStart = ''onLoadStart''"
| "method_name OnLoad = ''onLoad''"
| "method_name OnLoadEnd = ''onLoadEnd''"
| "method_name (OnProgress p) = ''onProgress''"
| "method_name OnError = ''onError''"
| "method_name OnPartialLoad = ''onPartialLoad''"

fun arguments :: "invocation \<Rightarrow> cxx_value list" where
  "arguments (OnProgress p) = [VDouble p]"
| "arguments c = []"

fun invoke :: "'e \<Rightarrow> invocation \<Rightarrow> image_event list \<Rightarrow> image_event list" where
  "invoke this OnLoadStart sink = onLoadStart this sink"
| "invoke this OnLoad sink = onLoad this sink"
| "invoke this OnLoadEnd sink = onLoadEnd this sink"
| "invoke this (OnProgress p) sink = onProgress this p sink"
| "invoke this OnError sink = onError this sink"
| "invoke this OnPartialLoad sink = onPartialLoad this sink"

fun emit :: "'e \<Rightarrow> invocation list \<Rightarrow> image_event list \<Rightarrow> image_event list" where
  "emit this [] sink = sink"
| "emit this (c # cs) sink = emit this cs (invoke this c sink)"

section \<open>The calls of one load attempt\<close>

text \<open>
  Modelled from the spec: the image-loading subsystem, the caller of the emitter; no
  caller is part of the sources, and the header itself puts no order on the calls. The
  phases are those the contracts of the specification's table of operations tell apart:
  nothing called yet, loading, loaded, failed, and ended.
\<close>

datatype phase = Idle | Loading | Succeeded | Failed | Ended

text \<open>
  Modelled from the spec: which call the image-loading subsystem may make in which
  phase, read off the contract column of the table of operations.
  \<^item> \<^verbatim>\<open>onLoadStart\<close>: "Fires at most once per load attempt, before any other image
    event for that attempt": the only call in \<open>Idle\<close>, and in no later phase.
  \<^item> \<^verbatim>\<open>onProgress\<close>: "may fire zero or more times between onLoadStart and
    onLoadEnd", with "a fractional value (0.0-1.0 expected)": allowed in every phase
    after the start and before the end, whatever its value, since the range is
    "not guaranteed by the excerpt".
  \<^item> \<^verbatim>\<open>onPartialLoad\<close>: an intermediate render "prior to full completion": allowed
    while loading.
  \<^item> \<^verbatim>\<open>onLoad\<close>: "successful completion"; \<^verbatim>\<open>onError\<close>: "load failure;
    mutually exclusive with onLoad for a given attempt": each ends the loading phase.
  \<^item> \<^verbatim>\<open>onLoadEnd\<close>: "the terminal point of a load attempt (success or failure);
    fires after onLoad or onError".
  Every other call is outside the contract: \<open>None\<close>.
\<close>

fun step :: "phase \<Rightarrow> invocation \<Rightarrow> phase option" where
  "step Idle OnLoadStart = Some Loading"
| "step Loading (OnProgress p) = Some Loading"
| "step Loading OnPartialLoad = Some Loading"
| "step Loading OnLoad = Some Succeeded"
| "step Loading OnError = Some Failed"
| "step Succeeded (OnProgress p) = Some Succeeded"
| "step Succeeded OnLoadEnd = Some Ended"
| "step Failed (OnProgress p) = Some Failed"
| "step Failed OnLoadEnd = Some Ended"
| "step ph c = None"

text \<open>Modelled from the spec: a sequence of calls that follows the contract from a phase on.\<close>

fun run :: "phase \<Rightarrow> invocation list \<Rightarrow> phase option" where
  "run ph [] = Some ph"
| "run ph (c # cs) = (case step ph c of None \<Rightarrow> None | Some ph' \<Rightarrow> run ph' cs)"

text \<open>
  Modelled from the spec: a load attempt, "one complete cycle of attempting to
  fetch/decode an image resource, from start to a terminal outcome": the calls of a run
  from \<open>Idle\<close> to \<open>Ended\<close>.
\<close>

definition attempt :: "invocation list \<Rightarrow> bool" where
  "attempt cs = (run Idle cs = Some Ended)"

subsection \<open>Auxiliary definitions for the proofs\<close>

text \<open>The event a call delivers, and what a run from \<open>Idle\<close> has called when it is in a phase.\<close>

fun event_of :: "invocation \<Rightarrow> image_event" where
  "event_of OnLoadStart = LoadStart"
| "event_of OnLoad = Load"
| "event_of OnLoadEnd = LoadEnd"
| "event_of (OnProgress p) = Progress p"
| "event_of OnError = Error"
| "event_of OnPartialLoad = PartialLoad"

fun seen :: "phase \<Rightarrow> invocation list \<Rightarrow> bool" where
  "seen Idle cs = (cs = [])"
| "seen Loading cs = (OnLoad \<notin> set cs \<and> OnError \<notin> set cs)"
| "seen Succeeded cs = (OnLoad \<in> set cs \<and> OnError \<notin> set cs)"
| "seen Failed cs = (OnError \<in> set cs \<and> OnLoad \<notin> set cs)"
| "seen Ended cs =
     ((OnLoad \<in> set cs \<or> OnError \<in> set cs) \<and> \<not> (OnLoad \<in> set cs \<and> OnError \<in> set cs))"

section \<open>Properties of the declaration\<close>

lemma own_methods_ImageEventEmitter:
  "own_methods ImageEventEmitter =
     [ \<lparr> m_name = ''onLoadStart'', m_params = [], m_ret = TVoid, m_const = True \<rparr>,
       \<lparr> m_name = ''onLoad'', m_params = [], m_ret = TVoid, m_const = True \<rparr>,
       \<lparr> m_name = ''onLoadEnd'', m_params = [], m_ret = TVoid, m_const = True \<rparr>,
       \<lparr> m_name = ''onProgress'', m_params = [TDouble], m_ret = TVoid, m_const = True \<rparr>,
       \<lparr> m_name = ''onError'', m_params = [], m_ret = TVoid, m_const = True \<rparr>,
       \<lparr> m_name = ''onPartialLoad'', m_params = [], m_ret = TVoid, m_const = True \<rparr> ]"
  by (simp add: own_methods_def ImageEventEmitter_def)

lemma public_methods_ImageEventEmitter:
  "public_methods ImageEventEmitter = own_methods ImageEventEmitter"
  by (simp add: public_methods_def own_methods_def ImageEventEmitter_def)

lemma c_bases_ImageEventEmitter:
  "c_bases ImageEventEmitter = [(Public, ''ViewEventEmitter'')]"
  by (simp add: ImageEventEmitter_def)

lemma find_method_onProgress:
  "find_method ImageEventEmitter ''onProgress'' =
     Some \<lparr> m_name = ''onProgress'', m_params = [TDouble], m_ret = TVoid, m_const = True \<rparr>"
  by (simp add: find_method_def own_methods_ImageEventEmitter)

lemma methods_with_access_ImageEventEmitter:
  "methods_with_access (c_members ImageEventEmitter) =
     map (Pair Public) (own_methods ImageEventEmitter)"
  by (simp add: own_methods_def ImageEventEmitter_def)

lemma find_declared_ImageEventEmitter:
  "find_declared ImageEventEmitter n =
     map_option (Pair Public) (find_method ImageEventEmitter n)"
  by (simp add: find_declared_def find_method_def methods_with_access_ImageEventEmitter
      own_methods_ImageEventEmitter)

lemma find_method_other_name:
  "n \<notin> set [''onLoadStart'', ''onLoad'', ''onLoadEnd'', ''onProgress'', ''onError'',
             ''onPartialLoad'']
   \<Longrightarrow> find_method ImageEventEmitter n = None"
  by (auto simp: find_method_def own_methods_ImageEventEmitter)

text \<open>The header declares each of the six member functions \<^verbatim>\<open>const\<close>.\<close>

lemma own_methods_const:
  "map m_const (own_methods ImageEventEmitter) = [True, True, True, True, True, True]"
  by (simp add: own_methods_ImageEventEmitter)

text \<open>Every call of the model is a well-formed call of a member function the header declares.\<close>

lemma invocation_declared:
  "map_option (\<lambda>m. accepts m (arguments c)) (find_method ImageEventEmitter (method_name c))
     = Some True"
  by (cases c) (simp_all add: find_method_def own_methods_ImageEventEmitter accepts_def)

text \<open>
  C1, as the claim states it: the public surface is the six notification member
  functions and nothing else, and the six are inherited from the base view event
  emitter. The second half fails. Take the case the claim needs, a base
  \<^verbatim>\<open>ViewEventEmitter\<close> that itself declares a public \<^verbatim>\<open>onLoadStart\<close>: the name
  \<^verbatim>\<open>onLoadStart\<close> looked up in \<^verbatim>\<open>ImageEventEmitter\<close> is still the member function
  the class declares itself, not an inherited one.
\<close>

theorem methods_inherited_counterexample:
  "map_option fst
     (lookup_method
        (Hierarchy ImageEventEmitter
           [Hierarchy
              \<lparr> c_name = ''ViewEventEmitter'', c_bases = [],
                c_members =
                  [(Public, Method \<lparr> m_name = ''onLoadStart'', m_params = [], m_ret = TVoid,
                                     m_const = True \<rparr>)] \<rparr>
              []])
        ''onLoadStart'')
   = Some Declared_here
   \<and> map_option fst
     (lookup_method
        (Hierarchy ImageEventEmitter
           [Hierarchy
              \<lparr> c_name = ''ViewEventEmitter'', c_bases = [],
                c_members =
                  [(Public, Method \<lparr> m_name = ''onLoadStart'', m_params = [], m_ret = TVoid,
                                     m_const = True \<rparr>)] \<rparr>
              []])
        ''onLoadStart'')
   \<noteq> Some Inherited"
  by (simp add: find_declared_ImageEventEmitter find_method_def own_methods_ImageEventEmitter)

text \<open>
  C1, amended: the member functions \<^verbatim>\<open>ImageEventEmitter\<close> declares are exactly the six
  notification member functions \<^verbatim>\<open>onLoadStart\<close>, \<^verbatim>\<open>onLoad\<close>, \<^verbatim>\<open>onLoadEnd\<close>,
  \<^verbatim>\<open>onProgress\<close>, \<^verbatim>\<open>onError\<close> and \<^verbatim>\<open>onPartialLoad\<close>, all of them public, and
  whatever the classes above it declare, each of the six names denotes the member
  function declared by \<^verbatim>\<open>ImageEventEmitter\<close> itself, not one inherited from a base.
\<close>

theorem public_surface_declared_here:
  "map m_name (public_methods ImageEventEmitter) =
     [''onLoadStart'', ''onLoad'', ''onLoadEnd'', ''onProgress'', ''onError'', ''onPartialLoad'']
   \<and> own_methods ImageEventEmitter = public_methods ImageEventEmitter
   \<and> map (\<lambda>n. map_option fst (lookup_method (Hierarchy ImageEventEmitter hs) n))
       [''onLoadStart'', ''onLoad'', ''onLoadEnd'', ''onProgress'', ''onError'', ''onPartialLoad'']
     = [Some Declared_here, Some Declared_here, Some Declared_here,
        Some Declared_here, Some Declared_here, Some Declared_here]"
proof -
  have "map m_name (public_methods ImageEventEmitter) =
     [''onLoadStart'', ''onLoad'', ''onLoadEnd'', ''onProgress'', ''onError'', ''onPartialLoad'']"
    by (simp add: public_methods_ImageEventEmitter own_methods_ImageEventEmitter)
  moreover have "own_methods ImageEventEmitter = public_methods ImageEventEmitter"
    by (simp add: public_methods_ImageEventEmitter)
  moreover have "map (\<lambda>n. map_option fst (lookup_method (Hierarchy ImageEventEmitter hs) n))
       [''onLoadStart'', ''onLoad'', ''onLoadEnd'', ''onProgress'', ''onError'', ''onPartialLoad'']
     = [Some Declared_here, Some Declared_here, Some Declared_here,
        Some Declared_here, Some Declared_here, Some Declared_here]"
    by (simp add: find_declared_ImageEventEmitter find_method_def own_methods_ImageEventEmitter)
  ultimately show ?thesis by blast
qed

text \<open>
  C2: each of the six operations returns \<^verbatim>\<open>void\<close>; \<^verbatim>\<open>onProgress\<close> takes one
  parameter, a \<^verbatim>\<open>double\<close>, and the other five take none.
\<close>

theorem operations_signatures:
  "map (\<lambda>m. (m_name m, m_params m, m_ret m)) (own_methods ImageEventEmitter) =
     [ (''onLoadStart'', [], TVoid),
       (''onLoad'', [], TVoid),
       (''onLoadEnd'', [], TVoid),
       (''onProgress'', [TDouble], TVoid),
       (''onError'', [], TVoid),
       (''onPartialLoad'', [], TVoid) ]"
  by (simp add: own_methods_ImageEventEmitter)

text \<open>
  C7: \<^verbatim>\<open>ImageEventEmitter\<close> declares no data member, so an object of the class holds
  exactly the data of its base subobject: there is no state of
  \<^verbatim>\<open>ImageEventEmitter\<close>'s own for an operation to read or to change.
\<close>

theorem no_own_state:
  "data_members ImageEventEmitter = []
   \<and> object_members base_members ImageEventEmitter = base_members"
  by (simp add: object_members_def data_members_def ImageEventEmitter_def)

text \<open>
  C8: \<^verbatim>\<open>ImageEventEmitter\<close> has one base, \<^verbatim>\<open>ViewEventEmitter\<close>, publicly; it brings in
  the constructors of that base; it declares exactly six member functions on top; and it
  inherits the rest from the base: whatever the hierarchy of \<^verbatim>\<open>ViewEventEmitter\<close> is,
  a member function that lookup finds in \<^verbatim>\<open>ViewEventEmitter\<close> (declared there or in
  any class above it, its event-dispatch mechanism among them) under a name other than
  the six is a member of \<^verbatim>\<open>ImageEventEmitter\<close> by inheritance, the same declaration
  with the access it has in \<^verbatim>\<open>ViewEventEmitter\<close>.
\<close>

theorem single_inheritance_six_methods:
  assumes "c_name (root h) = ''ViewEventEmitter''"
    and "lookup_method h n = Some (org, acc, m)"
    and "n \<notin> set [''onLoadStart'', ''onLoad'', ''onLoadEnd'', ''onProgress'', ''onError'',
                   ''onPartialLoad'']"
  shows "c_bases ImageEventEmitter = [(Public, ''ViewEventEmitter'')]
         \<and> inherited_ctors ImageEventEmitter = [''ViewEventEmitter'']
         \<and> map m_name (own_methods ImageEventEmitter) =
             [''onLoadStart'', ''onLoad'', ''onLoadEnd'', ''onProgress'', ''onError'',
              ''onPartialLoad'']
         \<and> lookup_method (Hierarchy ImageEventEmitter [h]) n =
             Some (Inherited, through Public acc, m)"
proof -
  have "inherited_ctors ImageEventEmitter = [''ViewEventEmitter'']"
    by (simp add: inherited_ctors_def ImageEventEmitter_def)
  moreover have "map m_name (own_methods ImageEventEmitter) =
       [''onLoadStart'', ''onLoad'', ''onLoadEnd'', ''onProgress'', ''onError'', ''onPartialLoad'']"
    by (simp add: own_methods_ImageEventEmitter)
  moreover have "lookup_method (Hierarchy ImageEventEmitter [h]) n =
       Some (Inherited, through Public acc, m)"
    using assms(1,2) find_method_other_name[OF assms(3)]
    by (simp add: find_declared_ImageEventEmitter c_bases_ImageEventEmitter
        List.map_filter_simps)
  ultimately show ?thesis
    using c_bases_ImageEventEmitter by blast
qed

text \<open>
  An instance, on a sample hierarchy: \<^verbatim>\<open>ViewEventEmitter\<close> declares nothing itself and
  derives publicly from a class that declares a protected member function; looked up in
  \<^verbatim>\<open>ImageEventEmitter\<close>, two levels below, that name is the inherited, protected
  member function.
\<close>

theorem single_inheritance_six_methods_witness:
  "c_name (root
     (Hierarchy
        \<lparr> c_name = ''ViewEventEmitter'', c_bases = [(Public, ''EventEmitter'')],
          c_members = [] \<rparr>
        [Hierarchy
           \<lparr> c_name = ''EventEmitter'', c_bases = [],
             c_members =
               [(Protected, Method \<lparr> m_name = ''dispatchEvent'', m_params = [],
                                       m_ret = TVoid, m_const = True \<rparr>)] \<rparr>
           []])) = ''ViewEventEmitter''
   \<and> ''dispatchEvent'' \<notin> set [''onLoadStart'', ''onLoad'', ''onLoadEnd'', ''onProgress'',
                               ''onError'', ''onPartialLoad'']
   \<and> lookup_method
       (Hierarchy ImageEventEmitter
          [Hierarchy
             \<lparr> c_name = ''ViewEventEmitter'', c_bases = [(Public, ''EventEmitter'')],
               c_members = [] \<rparr>
             [Hierarchy
                \<lparr> c_name = ''EventEmitter'', c_bases = [],
                  c_members =
                    [(Protected, Method \<lparr> m_name = ''dispatchEvent'', m_params = [],
                                            m_ret = TVoid, m_const = True \<rparr>)] \<rparr>
                []]])
       ''dispatchEvent''
     = Some (Inherited, Some Protected,
             \<lparr> m_name = ''dispatchEvent'', m_params = [], m_ret = TVoid, m_const = True \<rparr>)"
  using single_inheritance_six_methods
    [of "Hierarchy
           \<lparr> c_name = ''ViewEventEmitter'', c_bases = [(Public, ''EventEmitter'')],
             c_members = [] \<rparr>
           [Hierarchy
              \<lparr> c_name = ''EventEmitter'', c_bases = [],
                c_members =
                  [(Protected, Method \<lparr> m_name = ''dispatchEvent'', m_params = [],
                                          m_ret = TVoid, m_const = True \<rparr>)] \<rparr>
              []]"
        "''dispatchEvent''" Inherited "Some Protected"
        "\<lparr> m_name = ''dispatchEvent'', m_params = [], m_ret = TVoid, m_const = True \<rparr>"]
  by (simp add: find_declared_def List.map_filter_simps)

text \<open>
  C10: the parameter of \<^verbatim>\<open>onProgress\<close> is a plain \<^verbatim>\<open>double\<close>. For every value
  \<open>d\<close> of that type (below 0, above 1, an infinity, a NaN) the call
  \<^verbatim>\<open>onProgress(d)\<close> is well-formed and runs the body on \<open>d\<close> as it is: the
  declaration checks no range.
\<close>

theorem onProgress_accepts_every_double:
  "map_option
     (\<lambda>m. (m_params m, accepts m [VDouble d], call m f [VDouble d] (e, w)))
     (find_method ImageEventEmitter ''onProgress'')
   = Some ([TDouble], True, Some (f e [VDouble d] w))"
  by (simp add: find_method_onProgress accepts_def call_def)

section \<open>Properties of the delivered events\<close>

subsection \<open>The emitter delivers one event per call, in the order of the calls\<close>

lemma invoke_appends: "invoke this c sink = sink @ [event_of c]"
  by (cases c)
    (simp_all add: onLoadStart_def onLoad_def onLoadEnd_def onProgress_def onError_def
      onPartialLoad_def)

lemma emit_appends: "emit this cs sink = sink @ map event_of cs"
  by (induction cs arbitrary: sink) (simp_all add: invoke_appends)

lemma inj_event_of: "inj event_of"
proof (rule injI)
  fix a b
  assume "event_of a = event_of b"
  then show "a = b" by (cases a; cases b; simp)
qed

lemma mem_map_event_of:
  "LoadStart \<in> set (map event_of cs) \<longleftrightarrow> OnLoadStart \<in> set cs"
  "Load \<in> set (map event_of cs) \<longleftrightarrow> OnLoad \<in> set cs"
  "LoadEnd \<in> set (map event_of cs) \<longleftrightarrow> OnLoadEnd \<in> set cs"
  "Error \<in> set (map event_of cs) \<longleftrightarrow> OnError \<in> set cs"
  using inj_image_mem_iff[OF inj_event_of, of OnLoadStart "set cs"]
    inj_image_mem_iff[OF inj_event_of, of OnLoad "set cs"]
    inj_image_mem_iff[OF inj_event_of, of OnLoadEnd "set cs"]
    inj_image_mem_iff[OF inj_event_of, of OnError "set cs"]
  by simp_all

subsection \<open>Steps and runs of the call contract\<close>

lemma run_append:
  "run ph (xs @ ys) = (case run ph xs of None \<Rightarrow> None | Some q \<Rightarrow> run q ys)"
  by (induction xs arbitrary: ph) (simp_all split: option.splits)

lemma step_not_Idle: "step ph c \<noteq> Some Idle"
  by (cases ph; cases c; simp)

lemma step_from_Idle: "step Idle c = Some q \<Longrightarrow> c = OnLoadStart \<and> q = Loading"
  by (cases c; simp)

lemma step_OnLoadStart: "step ph OnLoadStart = Some q \<Longrightarrow> ph = Idle"
  by (cases ph; simp)

lemma step_into_Ended:
  "step ph c = Some Ended \<longleftrightarrow> (ph = Succeeded \<or> ph = Failed) \<and> c = OnLoadEnd"
  by (cases ph; cases c; simp)

lemma step_OnLoadEnd: "step ph OnLoadEnd = Some q \<Longrightarrow> q = Ended"
  by (cases ph; simp)

lemma run_Ended: "run Ended cs = Some q \<Longrightarrow> cs = []"
  by (cases cs) simp_all

lemma no_second_start:
  "ph \<noteq> Idle \<Longrightarrow> run ph cs = Some q \<Longrightarrow> OnLoadStart \<notin> set cs"
proof (induction cs arbitrary: ph)
  case Nil
  then show ?case by simp
next
  case (Cons c cs)
  from Cons.prems(2) obtain ph' where s: "step ph c = Some ph'" and r: "run ph' cs = Some q"
    by (auto split: option.splits)
  from s Cons.prems(1) have "c \<noteq> OnLoadStart"
    using step_OnLoadStart by blast
  moreover from s have "ph' \<noteq> Idle"
    using step_not_Idle[of ph c] by auto
  ultimately show ?case
    using Cons.IH[OF _ r] by simp
qed

lemma no_end_before_Ended:
  "run ph cs = Some q \<Longrightarrow> q \<noteq> Ended \<Longrightarrow> OnLoadEnd \<notin> set cs"
proof (induction cs arbitrary: ph)
  case Nil
  then show ?case by simp
next
  case (Cons c cs)
  from Cons.prems(1) obtain ph' where s: "step ph c = Some ph'" and r: "run ph' cs = Some q"
    by (auto split: option.splits)
  have "c \<noteq> OnLoadEnd"
  proof
    assume "c = OnLoadEnd"
    with s have e: "ph' = Ended"
      using step_OnLoadEnd by blast
    with r have "cs = []"
      using run_Ended by blast
    with r e Cons.prems(2) show False by simp
  qed
  with Cons.IH[OF r Cons.prems(2)] show ?case by simp
qed

lemma seen_step: "seen ph cs \<Longrightarrow> step ph c = Some q \<Longrightarrow> seen q (cs @ [c])"
  by (cases ph; cases c; auto)

lemma run_seen: "run Idle cs = Some q \<Longrightarrow> seen q cs"
proof (induction cs arbitrary: q rule: rev_induct)
  case Nil
  then show ?case by simp
next
  case (snoc c cs)
  from snoc.prems obtain ph where r: "run Idle cs = Some ph" and s: "step ph c = Some q"
    by (auto simp: run_append split: option.splits)
  from seen_step[OF snoc.IH[OF r] s] show ?case .
qed

lemma attempt_starts_once:
  assumes "attempt cs"
  shows "\<exists>rest. cs = OnLoadStart # rest \<and> OnLoadStart \<notin> set rest"
proof (cases cs)
  case Nil
  with assms show ?thesis by (simp add: attempt_def)
next
  case (Cons c rest)
  with assms obtain ph where s: "step Idle c = Some ph" and r: "run ph rest = Some Ended"
    by (auto simp: attempt_def split: option.splits)
  from step_from_Idle[OF s] have c: "c = OnLoadStart" and ph: "ph = Loading"
    by simp_all
  from r ph have "OnLoadStart \<notin> set rest"
    using no_second_start[of Loading rest Ended] by simp
  with c Cons show ?thesis by simp
qed

lemma attempt_ends_once:
  assumes "attempt cs"
  shows "\<exists>pre. cs = pre @ [OnLoadEnd] \<and> OnLoadEnd \<notin> set pre
           \<and> (OnLoad \<in> set pre \<or> OnError \<in> set pre)"
proof (cases cs rule: rev_cases)
  case Nil
  with assms show ?thesis by (simp add: attempt_def)
next
  case (snoc pre c)
  with assms obtain ph where r: "run Idle pre = Some ph" and s: "step ph c = Some Ended"
    by (auto simp: attempt_def run_append split: option.splits)
  from s have ph: "ph = Succeeded \<or> ph = Failed" and c: "c = OnLoadEnd"
    by (simp_all add: step_into_Ended)
  from ph have "ph \<noteq> Ended" by auto
  with r have "OnLoadEnd \<notin> set pre"
    using no_end_before_Ended by blast
  moreover from run_seen[OF r] ph have "OnLoad \<in> set pre \<or> OnError \<in> set pre"
    by auto
  ultimately show ?thesis
    using snoc c by simp
qed

lemma attempt_one_outcome: "attempt cs \<Longrightarrow> \<not> (OnLoad \<in> set cs \<and> OnError \<in> set cs)"
  using run_seen[of cs Ended] by (simp add: attempt_def)

text \<open>
  The scenarios the specification lists: start, progress 0.3, progress 0.7, load, end, and
  start, error, end are load attempts; start, load, error is not.
\<close>

lemma scenario_success:
  "attempt [OnLoadStart, OnProgress (Finite 0.3), OnProgress (Finite 0.7), OnLoad, OnLoadEnd]"
  by (simp add: attempt_def)

lemma scenario_failure: "attempt [OnLoadStart, OnError, OnLoadEnd]"
  by (simp add: attempt_def)

lemma scenario_load_then_error: "\<not> attempt [OnLoadStart, OnLoad, OnError]"
  by (simp add: attempt_def)

subsection \<open>The claims on the order of the events\<close>

text \<open>
  C3: in every load attempt the first event delivered is \<^verbatim>\<open>onLoadStart\<close>'s, so it
  comes before every \<^verbatim>\<open>onProgress\<close>, \<^verbatim>\<open>onLoad\<close>, \<^verbatim>\<open>onError\<close>,
  \<^verbatim>\<open>onPartialLoad\<close> and \<^verbatim>\<open>onLoadEnd\<close> event, and it is not delivered a second
  time.
\<close>

theorem load_start_first_and_once:
  assumes "attempt cs"
  shows "\<exists>rest. emit this cs [] = LoadStart # rest \<and> LoadStart \<notin> set rest"
proof -
  from assms obtain r where "cs = OnLoadStart # r" and "OnLoadStart \<notin> set r"
    using attempt_starts_once by blast
  then show ?thesis
    by (simp add: emit_appends mem_map_event_of del: set_map)
qed

theorem load_start_first_and_once_witness:
  "attempt [OnLoadStart, OnProgress (Finite 0.3), OnProgress (Finite 0.7), OnLoad, OnLoadEnd]
   \<and> (\<exists>rest.
        emit () [OnLoadStart, OnProgress (Finite 0.3), OnProgress (Finite 0.7), OnLoad, OnLoadEnd] []
          = LoadStart # rest
        \<and> LoadStart \<notin> set rest)"
  using load_start_first_and_once
    [of "[OnLoadStart, OnProgress (Finite 0.3), OnProgress (Finite 0.7), OnLoad, OnLoadEnd]" "()"]
  by (simp add: attempt_def)

text \<open>
  C4: in every load attempt the \<^verbatim>\<open>onLoadEnd\<close> event is delivered exactly once, as the
  last event, and an \<^verbatim>\<open>onLoad\<close> or an \<^verbatim>\<open>onError\<close> event has been delivered before
  it.
\<close>

theorem load_end_once_after_outcome:
  assumes "attempt cs"
  shows "\<exists>pre. emit this cs [] = pre @ [LoadEnd] \<and> LoadEnd \<notin> set pre
           \<and> (Load \<in> set pre \<or> Error \<in> set pre)"
proof -
  from assms obtain p where "cs = p @ [OnLoadEnd]" and "OnLoadEnd \<notin> set p"
    and "OnLoad \<in> set p \<or> OnError \<in> set p"
    using attempt_ends_once by blast
  then show ?thesis
    by (simp add: emit_appends mem_map_event_of del: set_map)
qed

theorem load_end_once_after_outcome_witness:
  "attempt [OnLoadStart, OnError, OnLoadEnd]
   \<and> (\<exists>pre. emit () [OnLoadStart, OnError, OnLoadEnd] [] = pre @ [LoadEnd]
        \<and> LoadEnd \<notin> set pre \<and> (Load \<in> set pre \<or> Error \<in> set pre))"
  using load_end_once_after_outcome [of "[OnLoadStart, OnError, OnLoadEnd]" "()"]
  by (simp add: attempt_def)

text \<open>
  C5: no load attempt delivers both an \<^verbatim>\<open>onLoad\<close> event and an \<^verbatim>\<open>onError\<close>
  event.
\<close>

theorem load_and_error_exclusive:
  assumes "attempt cs"
  shows "\<not> (Load \<in> set (emit this cs []) \<and> Error \<in> set (emit this cs []))"
  using attempt_one_outcome[OF assms]
  by (simp add: emit_appends mem_map_event_of del: set_map)

theorem load_and_error_exclusive_witness:
  "attempt [OnLoadStart, OnPartialLoad, OnLoad, OnLoadEnd]
   \<and> \<not> (Load \<in> set (emit () [OnLoadStart, OnPartialLoad, OnLoad, OnLoadEnd] [])
        \<and> Error \<in> set (emit () [OnLoadStart, OnPartialLoad, OnLoad, OnLoadEnd] []))"
  using load_and_error_exclusive [of "[OnLoadStart, OnPartialLoad, OnLoad, OnLoadEnd]" "()"]
  by (simp add: attempt_def)


end
